theory Spec2Isabelle
  imports Main
begin

section \<open>Python values\<close>

text \<open>
  The helpers of \<^verbatim>\<open>soporte_mongo.py\<close> build query documents, pass them to the
  MongoDB driver and hand the answers to pandas. The values they handle are Python
  values: a float is a finite binary fraction (mantissa and exponent), an infinity or a
  NaN; a dict with string keys is a list of entries in insertion order. Two values are
  the same when they are written the same: the model does not identify \<^verbatim>\<open>1\<close>,
  \<^verbatim>\<open>1.0\<close> and \<^verbatim>\<open>True\<close> as Python's \<^verbatim>\<open>==\<close> does.
\<close>

datatype pyfloat = Finite int int | PosInf | NegInf | NaN

datatype pyval =
    PNone
  | PBool bool
  | PInt int
  | PFloat pyfloat
  | PStr string
  | PObjectId string
  | PList "pyval list"
  | PDict "(string \<times> pyval) list"

type_synonym doc = "(string \<times> pyval) list"

text \<open>
  \<^verbatim>\<open>d[k] = v\<close>: a key that is already present keeps its place and takes the new value,
  a new key goes to the end.
\<close>

fun dict_set :: "('k \<times> 'v) list \<Rightarrow> 'k \<Rightarrow> 'v \<Rightarrow> ('k \<times> 'v) list" where
  "dict_set [] k v = [(k, v)]"
| "dict_set ((k', v') # d) k v =
     (if k' = k then (k, v) # d else (k', v') # dict_set d k v)"

text \<open>
  A dict display \<^verbatim>\<open>{k1: v1, k2: v2, ...}\<close> and \<^verbatim>\<open>dict(pairs)\<close> store the entries
  from left to right, so of two entries with one key the later value is kept.
\<close>

definition dict_literal :: "('k \<times> 'v) list \<Rightarrow> ('k \<times> 'v) list" where
  "dict_literal kvs = fold (\<lambda>kv d. dict_set d (fst kv) (snd kv)) kvs []"

text \<open>\<^verbatim>\<open>d.get(k)\<close>: the value under a key, if there is one.\<close>

definition dict_get :: "('k \<times> 'v) list \<Rightarrow> 'k \<Rightarrow> 'v option" where
  "dict_get d k = map_of d k"

section \<open>Exceptions and printed lines\<close>

text \<open>
  The text of an exception the helpers raise themselves: the two \<^verbatim>\<open>ValueError\<close>s of
  \<^verbatim>\<open>conexion_mongo\<close> (the database, or the collection of a database, does not exist),
  the \<^verbatim>\<open>TypeError\<close> of \<^verbatim>\<open>crear_bbbd_colecciones\<close>, and any text of the driver's.
\<close>

datatype message =
    NoExisteBaseDatos string
  | NoExisteColeccion string string
  | ConexionNoValida
  | DriverMessage string

datatype exn =
    KeyError string
  | ValueError message
  | TypeError message
  | CollectionInvalid message
  | DuplicateKeyError message
  | OperationFailure message
  | OtherException message

text \<open>
  These are the exceptions an \<^verbatim>\<open>except Exception\<close> catches. A call either raises
  (\<open>Inl\<close>) or returns (\<open>Inr\<close>). A helper that falls off its end returns Python's
  \<^verbatim>\<open>None\<close>, written \<open>Inr None\<close> below.
\<close>

definition raises :: "exn + 'a \<Rightarrow> bool" where
  "raises r = (case r of Inl e \<Rightarrow> True | Inr v \<Rightarrow> False)"

text \<open>The lines the helpers print, one constructor for each \<^verbatim>\<open>print\<close> of the source.\<close>

datatype printed =
    ErrorAlConectar exn
  | ColeccionYaExiste string
  | ErrorAlCrear exn
  | IdYaExiste pyval
  | ErrorAlInsertar string exn

section \<open>Tables\<close>

text \<open>
  The index labels of the frames of the model are integers (a \<^verbatim>\<open>RangeIndex\<close>, an
  integer index) or strings. For these, two labels are one key of a Python dict exactly
  when they are written the same; labels that Python identifies though they are written
  differently (\<^verbatim>\<open>1\<close>, \<^verbatim>\<open>1.0\<close> and \<^verbatim>\<open>True\<close>) are not labels of the model.
\<close>

datatype label = IntLabel int | StrLabel string

text \<open>
  A pandas \<^verbatim>\<open>DataFrame\<close>: column labels, index labels (one for each row) and the rows,
  each with one cell for each column. The frames of the model have no column label
  twice: for a label that stands twice \<^verbatim>\<open>df["category"]\<close> is a frame and not a
  column, and line 164 takes another path through pandas, which the model does not
  follow. An index label may stand twice, as after a concatenation of frames.
\<close>

record dataframe =
  df_columns :: "string list"
  df_index :: "label list"
  df_rows :: "pyval list list"

definition wf_frame :: "dataframe \<Rightarrow> bool" where
  "wf_frame t =
     (distinct (df_columns t) \<and> length (df_index t) = length (df_rows t) \<and>
      list_all (\<lambda>row. length row = length (df_columns t)) (df_rows t))"

text \<open>The marker pandas puts in a cell whose record has no such field.\<close>

definition absent :: pyval where
  "absent = PFloat NaN"

text \<open>
  Modelled from the spec: the constructor \<^verbatim>\<open>pd.DataFrame(records)\<close> is pandas', not
  this repository's. The spec's result normalization: one row for each document, in
  the order given; the columns are the union of the field names of all documents (here
  in the order of their first appearance); a field a document lacks is the absent marker.
  The cells hold the values as the records have them: the number type pandas gives a
  column (an integer beside an absent cell becomes a float) is not modelled. The queries
  hand the table on as a whole and read no cell of it.
\<close>

definition union_columns :: "doc list \<Rightarrow> string list" where
  "union_columns docs =
     fold (\<lambda>k cols. if k \<in> set cols then cols else cols @ [k])
       (concat (map (map fst) docs)) []"

definition cell_of :: "doc \<Rightarrow> string \<Rightarrow> pyval" where
  "cell_of d c = (case dict_get d c of Some v \<Rightarrow> v | None \<Rightarrow> absent)"

definition DataFrame :: "doc list \<Rightarrow> dataframe" where
  "DataFrame docs =
     \<lparr>df_columns = union_columns docs,
      df_index = map (\<lambda>i. IntLabel (int i)) [0..<length docs],
      df_rows = map (\<lambda>d. map (cell_of d) (union_columns docs)) docs\<rparr>"

section \<open>The proximity queries\<close>

text \<open>
  The collection handle is the caller's. The queries use two of its methods, and either
  may raise (the engine rejects the query, the server is away).
\<close>

record coleccion =
  coll_find :: "pyval \<Rightarrow> exn + doc list"
  coll_aggregate :: "pyval list \<Rightarrow> exn + doc list"

text \<open>
  \<^verbatim>\<open>query_near\<close>, lines 28 to 34: the filter document, then
  \<^verbatim>\<open>pd.DataFrame(coleccion.find(filter))\<close>. The key of the reference point is the
  f-string \<^verbatim>\<open>f'${col_geometria_coleccion}'\<close>.
\<close>

definition near_filter :: "pyval \<Rightarrow> pyval \<Rightarrow> string \<Rightarrow> pyval" where
  "near_filter punto_referencia radio col_geometria_coleccion =
     PDict (dict_literal [(''geometry'',
       PDict (dict_literal [(''$near'',
         PDict (dict_literal [(''$'' @ col_geometria_coleccion, punto_referencia),
                              (''$maxDistance'', radio)]))]))])"

definition query_near :: "pyval \<Rightarrow> pyval \<Rightarrow> coleccion \<Rightarrow> string \<Rightarrow> exn + dataframe" where
  "query_near punto_referencia radio coleccion col_geometria_coleccion =
     (case coll_find coleccion (near_filter punto_referencia radio col_geometria_coleccion) of
        Inl e \<Rightarrow> Inl e
      | Inr docs \<Rightarrow> Inr (DataFrame docs))"

text \<open>
  \<^verbatim>\<open>query_geonear\<close>, lines 52 to 62: the list \<^verbatim>\<open>query\<close> of one stage, then
  \<^verbatim>\<open>pd.DataFrame(coleccion.aggregate(query))\<close>.
\<close>

definition geonear_query :: "pyval \<Rightarrow> string \<Rightarrow> pyval \<Rightarrow> pyval list" where
  "geonear_query punto_referencia nombre_nuevo_campo radio =
     [PDict (dict_literal [(''$geoNear'',
        PDict (dict_literal [(''near'', punto_referencia),
                             (''distanceField'', PStr nombre_nuevo_campo),
                             (''maxDistance'', radio),
                             (''spherical'', PBool True)]))])]"

definition query_geonear :: "pyval \<Rightarrow> string \<Rightarrow> pyval \<Rightarrow> coleccion \<Rightarrow> exn + dataframe" where
  "query_geonear punto_referencia nombre_nuevo_campo radio coleccion =
     (case coll_aggregate coleccion (geonear_query punto_referencia nombre_nuevo_campo radio) of
        Inl e \<Rightarrow> Inl e
      | Inr docs \<Rightarrow> Inr (DataFrame docs))"

section \<open>Connecting: \<^verbatim>\<open>conexion_mongo\<close>\<close>

text \<open>
  What a call can hold as a connection or hand back as a handle: the client, a database
  of a name, a collection of a database, or any other Python value.
\<close>

datatype pyobj =
    MongoClient
  | Database string
  | Collection string string
  | Plain pyval

text \<open>
  The answers of the server behind \<^verbatim>\<open>pymongo.MongoClient()\<close>: the names of its
  databases and, for a database, the names of its collections. Either call may raise.
\<close>

record mongo_server =
  list_database_names :: "exn + string list"
  list_collection_names :: "string \<Rightarrow> exn + string list"

text \<open>
  Lines 85 to 102, the body of the \<^verbatim>\<open>try\<close>: \<open>Inl\<close> is what it raises, \<open>Inr\<close>
  the pair it returns. The first argument is the outcome of \<^verbatim>\<open>pymongo.MongoClient()\<close>.
\<close>

definition conexion_mongo_try ::
  "exn + mongo_server \<Rightarrow> string \<Rightarrow> string \<Rightarrow> exn + (pyobj \<times> pyobj)" where
  "conexion_mongo_try new_client nombre_base_datos nombre_coleccion =
     (case new_client of
        Inl e \<Rightarrow> Inl e
      | Inr cliente \<Rightarrow>
          (case list_database_names cliente of
             Inl e \<Rightarrow> Inl e
           | Inr bases \<Rightarrow>
               if nombre_base_datos \<notin> set bases
               then Inl (ValueError (NoExisteBaseDatos nombre_base_datos))
               else
                 (case list_collection_names cliente nombre_base_datos of
                    Inl e \<Rightarrow> Inl e
                  | Inr colecciones \<Rightarrow>
                      if nombre_coleccion \<notin> set colecciones
                      then Inl (ValueError (NoExisteColeccion nombre_coleccion nombre_base_datos))
                      else Inr (MongoClient, Collection nombre_base_datos nombre_coleccion))))"

text \<open>
  Lines 84 to 105: \<^verbatim>\<open>except Exception as e\<close> prints and falls off the end of the
  function, which then returns \<^verbatim>\<open>None\<close>. The result is what the caller gets and
  what was printed.
\<close>

definition conexion_mongo ::
  "exn + mongo_server \<Rightarrow> string \<Rightarrow> string \<Rightarrow> (exn + (pyobj \<times> pyobj) option) \<times> printed list" where
  "conexion_mongo new_client nombre_base_datos nombre_coleccion =
     (case conexion_mongo_try new_client nombre_base_datos nombre_coleccion of
        Inl e \<Rightarrow> (Inr None, [ErrorAlConectar e])
      | Inr r \<Rightarrow> (Inr (Some r), []))"

section \<open>Provisioning: \<^verbatim>\<open>crear_bbbd_colecciones\<close>\<close>

text \<open>
  The two driver calls of the function, over a server state \<open>'st\<close>:
  \<^verbatim>\<open>conexion[nombre_base_datos]\<close> and \<^verbatim>\<open>sitios.create_collection(categoria)\<close>.
\<close>

record 'st driver =
  drv_getitem :: "pyobj \<Rightarrow> string \<Rightarrow> exn + pyobj"
  drv_create_collection :: "pyobj \<Rightarrow> string \<Rightarrow> 'st \<Rightarrow> exn + 'st"

text \<open>
  \<^verbatim>\<open>isinstance(conexion, (pymongo.MongoClient, pymongo.collection.Collection))\<close>
\<close>

fun is_client_or_collection :: "pyobj \<Rightarrow> bool" where
  "is_client_or_collection MongoClient = True"
| "is_client_or_collection (Collection b c) = True"
| "is_client_or_collection (Database b) = False"
| "is_client_or_collection (Plain v) = False"

text \<open>
  Lines 136 to 140, the loop: \<^verbatim>\<open>CollectionInvalid\<close> is printed and the loop goes
  on; any other exception leaves the loop.
\<close>

fun crear_colecciones ::
  "'st driver \<Rightarrow> pyobj \<Rightarrow> string list \<Rightarrow> 'st \<Rightarrow> printed list \<Rightarrow> (exn + unit) \<times> 'st \<times> printed list" where
  "crear_colecciones drv sitios [] st out = (Inr (), st, out)"
| "crear_colecciones drv sitios (categoria # rest) st out =
     (case drv_create_collection drv sitios categoria st of
        Inr st' \<Rightarrow> crear_colecciones drv sitios rest st' out
      | Inl e \<Rightarrow>
          (case e of
             CollectionInvalid m \<Rightarrow>
               crear_colecciones drv sitios rest st (out @ [ColeccionYaExiste categoria])
           | _ \<Rightarrow> (Inl e, st, out)))"

text \<open>Lines 128 to 142, the body of the \<^verbatim>\<open>try\<close>.\<close>

definition crear_bbbd_colecciones_try ::
  "'st driver \<Rightarrow> pyobj \<Rightarrow> string \<Rightarrow> string list \<Rightarrow> 'st \<Rightarrow> (exn + pyobj) \<times> 'st \<times> printed list" where
  "crear_bbbd_colecciones_try drv conexion nombre_base_datos nombre_colecciones st =
     (if \<not> is_client_or_collection conexion then (Inl (TypeError ConexionNoValida), st, [])
      else
        (case drv_getitem drv conexion nombre_base_datos of
           Inl e \<Rightarrow> (Inl e, st, [])
         | Inr sitios \<Rightarrow>
             (case crear_colecciones drv sitios nombre_colecciones st [] of
                (Inl e, st', out) \<Rightarrow> (Inl e, st', out)
              | (Inr u, st', out) \<Rightarrow> (Inr sitios, st', out))))"

text \<open>Lines 127 to 145: the outer handler prints and the function returns \<^verbatim>\<open>None\<close>.\<close>

definition crear_bbbd_colecciones ::
  "'st driver \<Rightarrow> pyobj \<Rightarrow> string \<Rightarrow> string list \<Rightarrow> 'st \<Rightarrow> (exn + pyobj option) \<times> 'st \<times> printed list" where
  "crear_bbbd_colecciones drv conexion nombre_base_datos nombre_colecciones st =
     (case crear_bbbd_colecciones_try drv conexion nombre_base_datos nombre_colecciones st of
        (Inl e, st', out) \<Rightarrow> (Inr None, st', out @ [ErrorAlCrear e])
      | (Inr sitios, st', out) \<Rightarrow> (Inr (Some sitios), st', out))"

section \<open>Bulk insertion: \<^verbatim>\<open>insertar_datos_en_colecciones\<close>\<close>

text \<open>
  The database handle: the documents stored under each collection name, and the errors
  the driver raises for an insertion for reasons of its own (the server is away, the
  document is refused).
\<close>

record base_datos =
  stored :: "string \<Rightarrow> doc list"
  driver_error :: "string \<Rightarrow> doc \<Rightarrow> exn option"

definition has_id :: "doc list \<Rightarrow> pyval option \<Rightarrow> bool" where
  "has_id docs i = list_ex (\<lambda>d. dict_get d ''_id'' = i) docs"

text \<open>
  \<^verbatim>\<open>base_datos[categoria].insert_one(documento)\<close>: the driver refuses a document whose
  \<^verbatim>\<open>_id\<close> is stored in the collection already and leaves the collection as it is;
  otherwise the document is stored after the others.
\<close>

definition insert_one :: "base_datos \<Rightarrow> string \<Rightarrow> doc \<Rightarrow> exn + base_datos" where
  "insert_one db categoria documento =
     (case driver_error db categoria documento of
        Some e \<Rightarrow> Inl e
      | None \<Rightarrow>
          if has_id (stored db categoria) (dict_get documento ''_id'')
          then Inl (DuplicateKeyError (DriverMessage ''E11000 duplicate key error''))
          else Inr (db\<lparr>stored := (stored db)(categoria := stored db categoria @ [documento])\<rparr>))"

text \<open>
  Line 164, \<^verbatim>\<open>df[df["category"] == categoria]\<close>: a frame without the column raises
  \<^verbatim>\<open>KeyError\<close>; otherwise the rows whose cell equals the name stay, each with its
  index label.
\<close>

definition row_category :: "string list \<Rightarrow> pyval list \<Rightarrow> pyval option" where
  "row_category cols row = dict_get (zip cols row) ''category''"

definition filter_category :: "dataframe \<Rightarrow> string \<Rightarrow> exn + dataframe" where
  "filter_category df categoria =
     (if ''category'' \<notin> set (df_columns df) then Inl (KeyError ''category'')
      else
        Inr \<lparr>df_columns = df_columns df,
             df_index = map fst (filter (\<lambda>lr. row_category (df_columns df) (snd lr) = Some (PStr categoria))
                          (zip (df_index df) (df_rows df))),
             df_rows = map snd (filter (\<lambda>lr. row_category (df_columns df) (snd lr) = Some (PStr categoria))
                          (zip (df_index df) (df_rows df)))\<rparr>)"

text \<open>
  Line 167, \<^verbatim>\<open>df_insertar.T.to_dict().values()\<close>: the transposed frame has one column
  for each index label, and \<^verbatim>\<open>to_dict\<close> is a dict from these labels to the rows as
  dicts, so of two rows with one label the later is kept. The labels are integers or
  strings, which are one key exactly when they are equal. The cells are taken as they
  are: a change of number type by the transposition is not modelled.
\<close>

definition to_dict_values :: "dataframe \<Rightarrow> doc list" where
  "to_dict_values df =
     map snd (dict_literal (zip (df_index df)
       (map (\<lambda>row. dict_literal (zip (df_columns df) row)) (df_rows df))))"

text \<open>\<^verbatim>\<open>d.pop(k)\<close>: the value under the key and the dict without it, or \<^verbatim>\<open>KeyError\<close>.\<close>

definition dict_pop :: "doc \<Rightarrow> string \<Rightarrow> exn + (pyval \<times> doc)" where
  "dict_pop d k =
     (case dict_get d k of
        None \<Rightarrow> Inl (KeyError k)
      | Some v \<Rightarrow> Inr (v, filter (\<lambda>kv. fst kv \<noteq> k) d))"

text \<open>Line 170, one element of the comprehension: \<^verbatim>\<open>{"_id": d.pop("fsq_id"), **d}\<close>.\<close>

definition renombrar_id :: "doc \<Rightarrow> exn + doc" where
  "renombrar_id d =
     (case dict_pop d ''fsq_id'' of
        Inl e \<Rightarrow> Inl e
      | Inr vd \<Rightarrow> Inr (dict_literal ((''_id'', fst vd) # snd vd)))"

text \<open>Line 170, the comprehension: it raises at the first dict without the key.\<close>

fun renombrar_ids :: "doc list \<Rightarrow> exn + doc list" where
  "renombrar_ids [] = Inr []"
| "renombrar_ids (d # ds) =
     (case renombrar_id d of
        Inl e \<Rightarrow> Inl e
      | Inr d' \<Rightarrow> (case renombrar_ids ds of Inl e \<Rightarrow> Inl e | Inr ds' \<Rightarrow> Inr (d' # ds')))"

text \<open>
  Lines 172 to 180, the loop over the documents of one category. Both handlers print
  and the loop goes on; the first handler reads \<^verbatim>\<open>documento['_id']\<close>.
\<close>

fun insertar_documentos ::
  "string \<Rightarrow> doc list \<Rightarrow> base_datos \<Rightarrow> printed list \<Rightarrow> (exn + unit) \<times> base_datos \<times> printed list" where
  "insertar_documentos categoria [] db out = (Inr (), db, out)"
| "insertar_documentos categoria (documento # rest) db out =
     (case insert_one db categoria documento of
        Inr db' \<Rightarrow> insertar_documentos categoria rest db' out
      | Inl e \<Rightarrow>
          (case e of
             DuplicateKeyError m \<Rightarrow>
               (case dict_get documento ''_id'' of
                  None \<Rightarrow> (Inl (KeyError ''_id''), db, out)
                | Some i \<Rightarrow> insertar_documentos categoria rest db (out @ [IdYaExiste i]))
           | _ \<Rightarrow> insertar_documentos categoria rest db (out @ [ErrorAlInsertar categoria e])))"

text \<open>Lines 162 to 180, the loop over the categories.\<close>

fun insertar_categorias ::
  "dataframe \<Rightarrow> string list \<Rightarrow> base_datos \<Rightarrow> printed list \<Rightarrow> (exn + unit) \<times> base_datos \<times> printed list" where
  "insertar_categorias df [] db out = (Inr (), db, out)"
| "insertar_categorias df (categoria # rest) db out =
     (case filter_category df categoria of
        Inl e \<Rightarrow> (Inl e, db, out)
      | Inr df_insertar \<Rightarrow>
          (case renombrar_ids (to_dict_values df_insertar) of
             Inl e \<Rightarrow> (Inl e, db, out)
           | Inr lista_diccionarios \<Rightarrow>
               (case insertar_documentos categoria lista_diccionarios db out of
                  (Inl e, db', out') \<Rightarrow> (Inl e, db', out')
                | (Inr u, db', out') \<Rightarrow> insertar_categorias df rest db' out')))"

definition insertar_datos_en_colecciones ::
  "dataframe \<Rightarrow> base_datos \<Rightarrow> string list \<Rightarrow> (exn + unit) \<times> base_datos \<times> printed list" where
  "insertar_datos_en_colecciones df base_datos nombre_categorias =
     insertar_categorias df nombre_categorias base_datos []"

text \<open>The rows of a frame that belong to a category.\<close>

definition filas_categoria :: "dataframe \<Rightarrow> string \<Rightarrow> pyval list list" where
  "filas_categoria df categoria =
     filter (\<lambda>row. row_category (df_columns df) row = Some (PStr categoria)) (df_rows df)"

section \<open>Example inputs\<close>

definition punto_madrid :: pyval where
  "punto_madrid =
     PDict [(''type'', PStr ''Point''),
            (''coordinates'', PList [PFloat (Finite (- 37) (- 1)), PFloat (Finite 323 (- 3))])]"

definition cafes :: "doc list" where
  "cafes =
     [[(''_id'', PStr ''a1''), (''name'', PStr ''Cafe Central'')],
      [(''_id'', PStr ''b2''), (''name'', PStr ''La Mallorquina''), (''dist'', PInt 400)]]"

definition coleccion_cafes :: coleccion where
  "coleccion_cafes = \<lparr>coll_find = (\<lambda>q. Inr cafes), coll_aggregate = (\<lambda>q. Inr cafes)\<rparr>"

definition coleccion_sin_resultados :: coleccion where
  "coleccion_sin_resultados = \<lparr>coll_find = (\<lambda>q. Inr []), coll_aggregate = (\<lambda>q. Inr [])\<rparr>"

definition coleccion_sin_indice :: coleccion where
  "coleccion_sin_indice =
     \<lparr>coll_find = (\<lambda>q. Inl (OperationFailure (DriverMessage ''unable to find index for $geoNear query''))),
      coll_aggregate = (\<lambda>q. Inl (OperationFailure (DriverMessage ''$geoNear requires a 2d or 2dsphere index'')))\<rparr>"

definition servidor_sitios :: mongo_server where
  "servidor_sitios =
     \<lparr>list_database_names = Inr [''admin'', ''local'', ''sitios''],
      list_collection_names = (\<lambda>b. if b = ''sitios'' then Inr [''cafes''] else Inr [])\<rparr>"

definition base_vacia :: base_datos where
  "base_vacia = \<lparr>stored = (\<lambda>c. []), driver_error = (\<lambda>c d. None)\<rparr>"

definition base_con_a1 :: base_datos where
  "base_con_a1 =
     \<lparr>stored = (\<lambda>c. if c = ''cafe'' then [[(''_id'', PStr ''a1''), (''category'', PStr ''cafe'')]] else []),
      driver_error = (\<lambda>c d. None)\<rparr>"

text \<open>Two places of one category: with the labels 0 and 1, and with the label 0 twice.\<close>

definition lugares :: dataframe where
  "lugares =
     \<lparr>df_columns = [''fsq_id'', ''category''],
      df_index = [IntLabel 0, IntLabel 1],
      df_rows = [[PStr ''a1'', PStr ''cafe''], [PStr ''b2'', PStr ''cafe'']]\<rparr>"

definition lugares_indice_repetido :: dataframe where
  "lugares_indice_repetido =
     \<lparr>df_columns = [''fsq_id'', ''category''],
      df_index = [IntLabel 0, IntLabel 0],
      df_rows = [[PStr ''a1'', PStr ''cafe''], [PStr ''b2'', PStr ''cafe'']]\<rparr>"

text \<open>A frame without the column \<^verbatim>\<open>fsq_id\<close>, and one that has it with an absent cell.\<close>

definition lugares_sin_fsq_id :: dataframe where
  "lugares_sin_fsq_id =
     \<lparr>df_columns = [''name'', ''category''],
      df_index = [IntLabel 0, IntLabel 1],
      df_rows = [[PStr ''Cafe Central'', PStr ''cafe''], [PStr ''La Mallorquina'', PStr ''cafe'']]\<rparr>"

definition lugares_celda_ausente :: dataframe where
  "lugares_celda_ausente =
     \<lparr>df_columns = [''fsq_id'', ''category''],
      df_index = [IntLabel 0, IntLabel 1],
      df_rows = [[PStr ''a1'', PStr ''cafe''], [absent, PStr ''cafe'']]\<rparr>"

section \<open>Auxiliary facts\<close>

subsection \<open>Dicts\<close>

lemma dict_set_keys: "set (map fst (dict_set d k v)) = insert k (set (map fst d))"
proof (induction d)
  case Nil
  show ?case by simp
next
  case (Cons p d)
  obtain k' v' where p: "p = (k', v')" by (cases p)
  show ?case
  proof (cases "k' = k")
    case True
    then show ?thesis by (simp add: p)
  next
    case False
    then show ?thesis using Cons.IH by (simp add: p insert_commute)
  qed
qed

lemma dict_set_values: "set (map snd (dict_set d k v)) \<subseteq> insert v (set (map snd d))"
proof (induction d)
  case Nil
  show ?case by simp
next
  case (Cons p d)
  obtain k' v' where p: "p = (k', v')" by (cases p)
  show ?case
  proof (cases "k' = k")
    case True
    then show ?thesis by (auto simp: p)
  next
    case False
    then show ?thesis using Cons.IH by (auto simp: p)
  qed
qed

lemma dict_set_not_Nil: "dict_set d k v \<noteq> []"
proof (cases d)
  case Nil
  then show ?thesis by simp
next
  case (Cons p d')
  obtain k' v' where "p = (k', v')" by (cases p)
  then show ?thesis using Cons by (cases "k' = k") simp_all
qed

lemma fold_dict_set_keys:
  "set (map fst (fold (\<lambda>kv d. dict_set d (fst kv) (snd kv)) kvs acc)) =
   set (map fst acc) \<union> set (map fst kvs)"
proof (induction kvs arbitrary: acc)
  case Nil
  show ?case by simp
next
  case (Cons kv kvs)
  have "set (map fst (fold (\<lambda>kv d. dict_set d (fst kv) (snd kv)) kvs (dict_set acc (fst kv) (snd kv)))) =
        set (map fst (dict_set acc (fst kv) (snd kv))) \<union> set (map fst kvs)"
    by (rule Cons.IH)
  also have "\<dots> = insert (fst kv) (set (map fst acc)) \<union> set (map fst kvs)"
    by (simp only: dict_set_keys)
  finally show ?case by auto
qed

lemma dict_literal_keys: "set (map fst (dict_literal kvs)) = set (map fst kvs)"
  using fold_dict_set_keys [of kvs "[]"] by (simp add: dict_literal_def)

lemma fold_dict_set_values:
  "set (map snd (fold (\<lambda>kv d. dict_set d (fst kv) (snd kv)) kvs acc)) \<subseteq>
   set (map snd acc) \<union> set (map snd kvs)"
proof (induction kvs arbitrary: acc)
  case Nil
  then show ?case by simp
next
  case (Cons kv kvs)
  have "set (map snd (fold (\<lambda>kv d. dict_set d (fst kv) (snd kv)) kvs (dict_set acc (fst kv) (snd kv))))
        \<subseteq> set (map snd (dict_set acc (fst kv) (snd kv))) \<union> set (map snd kvs)"
    by (rule Cons.IH)
  also have "\<dots> \<subseteq> insert (snd kv) (set (map snd acc)) \<union> set (map snd kvs)"
    using dict_set_values [of acc "fst kv" "snd kv"] by blast
  finally show ?case by auto
qed

lemma dict_literal_values: "set (map snd (dict_literal kvs)) \<subseteq> set (map snd kvs)"
  using fold_dict_set_values [of kvs "[]"] by (simp add: dict_literal_def)

lemma fold_dict_set_not_Nil:
  "acc \<noteq> [] \<or> kvs \<noteq> [] \<Longrightarrow> fold (\<lambda>kv d. dict_set d (fst kv) (snd kv)) kvs acc \<noteq> []"
  by (induction kvs arbitrary: acc) (auto simp: dict_set_not_Nil)

lemma dict_literal_not_Nil: "kvs \<noteq> [] \<Longrightarrow> dict_literal kvs \<noteq> []"
  by (simp add: dict_literal_def fold_dict_set_not_Nil)

lemma dict_get_None_iff: "dict_get d k = None \<longleftrightarrow> k \<notin> set (map fst d)"
  by (simp add: dict_get_def map_of_eq_None_iff)

lemma map_snd_filter_zip:
  "length xs = length ys \<Longrightarrow> map snd (filter (\<lambda>p. P (snd p)) (zip xs ys)) = filter P ys"
  by (induction xs ys rule: list_induct2) auto

subsection \<open>Frames\<close>

lemma filter_category_Inr:
  "''category'' \<in> set (df_columns df) \<Longrightarrow>
   filter_category df c =
     Inr \<lparr>df_columns = df_columns df,
          df_index = map fst (filter (\<lambda>lr. row_category (df_columns df) (snd lr) = Some (PStr c))
                       (zip (df_index df) (df_rows df))),
          df_rows = map snd (filter (\<lambda>lr. row_category (df_columns df) (snd lr) = Some (PStr c))
                       (zip (df_index df) (df_rows df)))\<rparr>"
  by (simp add: filter_category_def)

lemma filtered_rows:
  "length (df_index df) = length (df_rows df) \<Longrightarrow>
   map snd (filter (\<lambda>lr. row_category (df_columns df) (snd lr) = Some (PStr c))
      (zip (df_index df) (df_rows df))) = filas_categoria df c"
  unfolding filas_categoria_def
  by (rule map_snd_filter_zip)

lemma to_dict_values_keys:
  assumes "d \<in> set (to_dict_values df)"
  shows "set (map fst d) \<subseteq> set (df_columns df)"
proof -
  let ?g = "\<lambda>row. dict_literal (zip (df_columns df) row)"
  from assms have "d \<in> set (map snd (dict_literal (zip (df_index df) (map ?g (df_rows df)))))"
    by (simp add: to_dict_values_def)
  with dict_literal_values [of "zip (df_index df) (map ?g (df_rows df))"]
  have "d \<in> set (map snd (zip (df_index df) (map ?g (df_rows df))))"
    by blast
  then have "d \<in> set (map ?g (df_rows df))"
    by (auto dest: set_zip_rightD)
  then obtain row where "d = ?g row" by auto
  then have "set (map fst d) = set (map fst (zip (df_columns df) row))"
    by (simp only: dict_literal_keys)
  also have "\<dots> \<subseteq> set (df_columns df)"
    by (simp add: map_fst_zip_take set_take_subset)
  finally show ?thesis .
qed

lemma to_dict_values_not_Nil:
  "df_index df \<noteq> [] \<Longrightarrow> df_rows df \<noteq> [] \<Longrightarrow> to_dict_values df \<noteq> []"
  unfolding to_dict_values_def
  by (simp add: dict_literal_not_Nil)

lemma to_dict_values_Nil: "df_rows df = [] \<Longrightarrow> to_dict_values df = []"
  by (simp add: to_dict_values_def dict_literal_def)

lemma renombrar_ids_missing:
  "ds \<noteq> [] \<Longrightarrow> list_all (\<lambda>d. dict_get d ''fsq_id'' = None) ds \<Longrightarrow>
   renombrar_ids ds = Inl (KeyError ''fsq_id'')"
  by (cases ds) (simp_all add: renombrar_id_def dict_pop_def)

lemma row_category_column:
  "row_category cols row = Some v \<Longrightarrow> ''category'' \<in> set cols"
proof -
  assume "row_category cols row = Some v"
  then have "''category'' \<in> set (map fst (zip cols row))"
    using dict_get_None_iff [of "zip cols row" "''category''"] by (simp add: row_category_def)
  then show ?thesis
    by (auto simp: map_fst_zip_take dest: in_set_takeD)
qed

subsection \<open>A frame without the key column\<close>

lemma insertar_categorias_missing_fsq_id:
  assumes len: "length (df_index df) = length (df_rows df)"
    and no_key: "''fsq_id'' \<notin> set (df_columns df)"
  shows "list_ex (\<lambda>c. filas_categoria df c \<noteq> []) cs \<Longrightarrow>
         insertar_categorias df cs db out = (Inl (KeyError ''fsq_id''), db, out)"
proof (induction cs)
  case Nil
  then show ?case by simp
next
  case (Cons x cs)
  let ?ys = "filter (\<lambda>lr. row_category (df_columns df) (snd lr) = Some (PStr x))
               (zip (df_index df) (df_rows df))"
  let ?df' = "\<lparr>df_columns = df_columns df, df_index = map fst ?ys, df_rows = map snd ?ys\<rparr>"
  from Cons.prems obtain c where "filas_categoria df c \<noteq> []"
    by (auto simp: list_ex_iff)
  then obtain row where "row \<in> set (filas_categoria df c)"
    by (cases "filas_categoria df c") auto
  then have "''category'' \<in> set (df_columns df)"
    by (auto simp: filas_categoria_def dest: row_category_column)
  then have df': "filter_category df x = Inr ?df'"
    by (rule filter_category_Inr)
  have rows: "map snd ?ys = filas_categoria df x"
    using len by (rule filtered_rows)
  show ?case
  proof (cases "filas_categoria df x = []")
    case True
    with rows have "to_dict_values ?df' = []"
      by (simp add: to_dict_values_Nil)
    moreover from True Cons.prems have "list_ex (\<lambda>c. filas_categoria df c \<noteq> []) cs"
      by simp
    ultimately show ?thesis
      using df' Cons.IH by simp
  next
    case False
    with rows have "?ys \<noteq> []" by auto
    then have "to_dict_values ?df' \<noteq> []"
      by (intro to_dict_values_not_Nil) simp_all
    moreover have "list_all (\<lambda>d. dict_get d ''fsq_id'' = None) (to_dict_values ?df')"
      unfolding list_all_iff
    proof
      fix d
      assume "d \<in> set (to_dict_values ?df')"
      from to_dict_values_keys [OF this] no_key show "dict_get d ''fsq_id'' = None"
        by (auto simp: dict_get_None_iff)
    qed
    ultimately have "renombrar_ids (to_dict_values ?df') = Inl (KeyError ''fsq_id'')"
      by (rule renombrar_ids_missing)
    with df' show ?thesis by simp
  qed
qed

subsection \<open>The table of no document\<close>

lemma DataFrame_Nil: "DataFrame [] = \<lparr>df_columns = [], df_index = [], df_rows = []\<rparr>"
  by (simp add: DataFrame_def union_columns_def)

section \<open>The aggregation query\<close>

text \<open>
  C1. For every reference point, distance-field name, radius and collection,
  \<^verbatim>\<open>query_geonear\<close> builds a pipeline of exactly one stage, a \<^verbatim>\<open>$geoNear\<close> whose
  \<^verbatim>\<open>near\<close> is the reference point, whose \<^verbatim>\<open>distanceField\<close> is the field name, whose
  \<^verbatim>\<open>maxDistance\<close> is the radius and whose \<^verbatim>\<open>spherical\<close> is true, and it returns the
  table of what the collection's \<^verbatim>\<open>aggregate\<close> answers for that pipeline.
\<close>

theorem query_geonear_pipeline:
  "geonear_query p f r =
     [PDict [(''$geoNear'',
        PDict [(''near'', p), (''distanceField'', PStr f), (''maxDistance'', r),
               (''spherical'', PBool True)])]] \<and>
   query_geonear p f r c =
     (case coll_aggregate c
        [PDict [(''$geoNear'',
          PDict [(''near'', p), (''distanceField'', PStr f), (''maxDistance'', r),
                 (''spherical'', PBool True)])]] of
        Inl e \<Rightarrow> Inl e
      | Inr docs \<Rightarrow> Inr (DataFrame docs))"
  by (simp add: query_geonear_def geonear_query_def dict_literal_def)

theorem query_geonear_pipeline_witness:
  "query_geonear punto_madrid ''dist'' (PInt 500) coleccion_cafes = Inr (DataFrame cafes)"
  using query_geonear_pipeline [of punto_madrid "''dist''" "PInt 500" coleccion_cafes]
  by (simp add: coleccion_cafes_def)

text \<open>
  C2 as stated does not hold: \<^verbatim>\<open>query_geonear\<close> has no check of the radius. With a
  collection that answers, a radius of \<open>-1\<close>, of infinity or of NaN gives a table.
\<close>

theorem query_geonear_bad_radius_counterexample:
  "\<not> raises (query_geonear punto_madrid ''dist'' (PInt (- 1)) coleccion_cafes) \<and>
   \<not> raises (query_geonear punto_madrid ''dist'' (PFloat PosInf) coleccion_cafes) \<and>
   \<not> raises (query_geonear punto_madrid ''dist'' (PFloat NaN) coleccion_cafes)"
  by (simp add: raises_def query_geonear_def coleccion_cafes_def)

text \<open>
  C2, amended. For every radius, a negative or non-finite one too, \<^verbatim>\<open>query_geonear\<close>
  puts the radius unchanged under \<^verbatim>\<open>maxDistance\<close>, and it fails exactly when the
  collection's \<^verbatim>\<open>aggregate\<close> fails for that pipeline, with the same exception.
\<close>

theorem query_geonear_radius_unchecked:
  "(\<exists>args. geonear_query p f r = [PDict [(''$geoNear'', PDict args)]] \<and>
           dict_get args ''maxDistance'' = Some r) \<and>
   (query_geonear p f r c = Inl e \<longleftrightarrow> coll_aggregate c (geonear_query p f r) = Inl e) \<and>
   raises (query_geonear p f r c) = raises (coll_aggregate c (geonear_query p f r))"
  by (auto simp: query_geonear_def geonear_query_def dict_literal_def dict_get_def raises_def
           split: sum.splits)

theorem query_geonear_radius_unchecked_witness:
  "query_geonear punto_madrid ''dist'' (PInt (- 1)) coleccion_sin_indice =
     Inl (OperationFailure (DriverMessage ''$geoNear requires a 2d or 2dsphere index'')) \<and>
   \<not> raises (query_geonear punto_madrid ''dist'' (PInt (- 1)) coleccion_sin_resultados)"
  using query_geonear_radius_unchecked [of punto_madrid "''dist''" "PInt (- 1)" coleccion_sin_indice
      "OperationFailure (DriverMessage ''$geoNear requires a 2d or 2dsphere index'')"]
    query_geonear_radius_unchecked [of punto_madrid "''dist''" "PInt (- 1)" coleccion_sin_resultados]
  by (simp add: coleccion_sin_indice_def coleccion_sin_resultados_def raises_def)

section \<open>The filter query\<close>

text \<open>
  C3 as stated does not hold for every key: with \<^verbatim>\<open>col_geometria_coleccion\<close> equal to
  \<^verbatim>\<open>maxDistance\<close> the two entries of the inner dict display have one key,
  \<^verbatim>\<open>$maxDistance\<close>, the radius replaces the reference point, and the filter holds no
  reference point at all.
\<close>

theorem near_filter_key_collision_counterexample:
  "near_filter punto_madrid (PInt 500) ''maxDistance'' =
     PDict [(''geometry'', PDict [(''$near'', PDict [(''$maxDistance'', PInt 500)])])]"
  by (simp add: near_filter_def dict_literal_def)

text \<open>
  C3, amended. For every reference point, radius and collection, and every key other
  than \<^verbatim>\<open>maxDistance\<close>, \<^verbatim>\<open>query_near\<close> builds the filter that puts under
  \<^verbatim>\<open>geometry\<close> the operator \<^verbatim>\<open>$near\<close> with the reference point under the key
  prefixed with \<^verbatim>\<open>$\<close> and the radius under \<^verbatim>\<open>$maxDistance\<close>, and it returns the table
  of what the collection's \<^verbatim>\<open>find\<close> answers for that filter.
\<close>

theorem query_near_filter:
  assumes "col \<noteq> ''maxDistance''"
  shows "near_filter p r col =
           PDict [(''geometry'', PDict [(''$near'', PDict [(''$'' @ col, p), (''$maxDistance'', r)])])] \<and>
         query_near p r c col =
           (case coll_find c
              (PDict [(''geometry'',
                 PDict [(''$near'', PDict [(''$'' @ col, p), (''$maxDistance'', r)])])]) of
              Inl e \<Rightarrow> Inl e
            | Inr docs \<Rightarrow> Inr (DataFrame docs))"
  using assms by (simp add: query_near_def near_filter_def dict_literal_def)

theorem query_near_filter_witness:
  "''geometry'' \<noteq> ''maxDistance'' \<and>
   near_filter punto_madrid (PInt 500) ''geometry'' =
     PDict [(''geometry'',
       PDict [(''$near'', PDict [(''$geometry'', punto_madrid), (''$maxDistance'', PInt 500)])])] \<and>
   query_near punto_madrid (PInt 500) coleccion_cafes ''geometry'' = Inr (DataFrame cafes)"
  using query_near_filter [of "''geometry''" punto_madrid "PInt 500" coleccion_cafes]
  by (simp add: coleccion_cafes_def)

text \<open>
  C4 as stated does not hold: \<^verbatim>\<open>query_near\<close> has no check of the reference point.
  With a collection that answers, a point without \<^verbatim>\<open>type\<close> and \<^verbatim>\<open>coordinates\<close>,
  without \<^verbatim>\<open>coordinates\<close> or without \<^verbatim>\<open>type\<close> gives a table.
\<close>

theorem query_near_bad_point_counterexample:
  "\<not> raises (query_near (PDict []) (PInt 500) coleccion_cafes ''geometry'') \<and>
   \<not> raises (query_near (PDict [(''type'', PStr ''Point'')]) (PInt 500) coleccion_cafes ''geometry'') \<and>
   \<not> raises (query_near (PDict [(''coordinates'', PList [PInt 0, PInt 0])]) (PInt 500)
                coleccion_cafes ''geometry'')"
  by (simp add: raises_def query_near_def coleccion_cafes_def)

text \<open>
  C4, amended. For every reference point, well-formed or not, and every radius,
  collection and key, \<^verbatim>\<open>query_near\<close> fails exactly when the collection's \<^verbatim>\<open>find\<close>
  fails for the filter built from that point, with the same exception.
\<close>

theorem query_near_point_unchecked:
  "(query_near p r c col = Inl e \<longleftrightarrow> coll_find c (near_filter p r col) = Inl e) \<and>
   raises (query_near p r c col) = raises (coll_find c (near_filter p r col))"
  by (auto simp: query_near_def raises_def split: sum.splits)

theorem query_near_point_unchecked_witness:
  "query_near (PDict []) (PInt 500) coleccion_sin_indice ''geometry'' =
     Inl (OperationFailure (DriverMessage ''unable to find index for $geoNear query'')) \<and>
   \<not> raises (query_near (PDict []) (PInt 500) coleccion_sin_resultados ''geometry'')"
  using query_near_point_unchecked [of "PDict []" "PInt 500" coleccion_sin_indice "''geometry''"
      "OperationFailure (DriverMessage ''unable to find index for $geoNear query'')"]
    query_near_point_unchecked [of "PDict []" "PInt 500" coleccion_sin_resultados "''geometry''"]
  by (simp add: coleccion_sin_indice_def coleccion_sin_resultados_def raises_def)

section \<open>Empty results\<close>

text \<open>
  C5. Whenever the engine answers a query with no document, \<^verbatim>\<open>query_near\<close> and
  \<^verbatim>\<open>query_geonear\<close> return a table, with no row and well formed, and raise nothing.
  This holds for every reference point and radius, so for every valid pair.
\<close>

theorem queries_empty_result:
  "(coll_find c (near_filter p r col) = Inr [] \<longrightarrow>
      (\<exists>t. query_near p r c col = Inr t \<and> df_rows t = [] \<and> wf_frame t)) \<and>
   (coll_aggregate c (geonear_query p f r) = Inr [] \<longrightarrow>
      (\<exists>t. query_geonear p f r c = Inr t \<and> df_rows t = [] \<and> wf_frame t))"
  by (simp add: query_near_def query_geonear_def DataFrame_Nil wf_frame_def)

theorem queries_empty_result_witness:
  "coll_find coleccion_sin_resultados (near_filter punto_madrid (PInt 500) ''geometry'') = Inr [] \<and>
   coll_aggregate coleccion_sin_resultados (geonear_query punto_madrid ''dist'' (PInt 500)) = Inr [] \<and>
   query_near punto_madrid (PInt 500) coleccion_sin_resultados ''geometry'' =
     Inr \<lparr>df_columns = [], df_index = [], df_rows = []\<rparr> \<and>
   query_geonear punto_madrid ''dist'' (PInt 500) coleccion_sin_resultados =
     Inr \<lparr>df_columns = [], df_index = [], df_rows = []\<rparr>"
  using queries_empty_result [of coleccion_sin_resultados punto_madrid "PInt 500" "''geometry''" "''dist''"]
  by (simp add: coleccion_sin_resultados_def query_near_def query_geonear_def DataFrame_Nil)

section \<open>Connecting and provisioning\<close>

text \<open>
  C7. \<^verbatim>\<open>conexion_mongo\<close> returns the client and the collection handle when both names
  exist. When the database or the collection does not exist, the \<^verbatim>\<open>ValueError\<close> it
  raises is caught by its own handler: the text is printed, the caller gets \<^verbatim>\<open>None\<close>
  and no exception.
\<close>

theorem conexion_mongo_swallows_missing:
  "conexion_mongo (Inr servidor_sitios) ''tienda'' ''cafes'' =
     (Inr None, [ErrorAlConectar (ValueError (NoExisteBaseDatos ''tienda''))]) \<and>
   conexion_mongo (Inr servidor_sitios) ''sitios'' ''bares'' =
     (Inr None, [ErrorAlConectar (ValueError (NoExisteColeccion ''bares'' ''sitios''))]) \<and>
   conexion_mongo (Inr servidor_sitios) ''sitios'' ''cafes'' =
     (Inr (Some (MongoClient, Collection ''sitios'' ''cafes'')), [])"
  by (simp add: conexion_mongo_def conexion_mongo_try_def servidor_sitios_def)

text \<open>
  C9. \<^verbatim>\<open>crear_bbbd_colecciones\<close> checks that its connection is a client or a
  collection. For an argument that is neither, the \<^verbatim>\<open>TypeError\<close> it raises is caught
  by its own outer handler: the text is printed, nothing is created, the caller gets
  \<^verbatim>\<open>None\<close> and no exception.
\<close>

theorem crear_bbbd_colecciones_swallows_type_error:
  "crear_bbbd_colecciones drv (Plain (PStr ''localhost:27017'')) nombre_base_datos nombre_colecciones st =
     (Inr None, st, [ErrorAlCrear (TypeError ConexionNoValida)])"
  by (simp add: crear_bbbd_colecciones_def crear_bbbd_colecciones_try_def)

section \<open>Bulk insertion\<close>

text \<open>
  C8. Where a row's key is stored already, the loop prints the skip, leaves the stored
  document as it is and goes on to the next row: with the place \<^verbatim>\<open>a1\<close> stored, the
  batch of \<^verbatim>\<open>a1\<close> and \<^verbatim>\<open>b2\<close> prints the skip of \<^verbatim>\<open>a1\<close> and stores \<^verbatim>\<open>b2\<close>
  after it. But not every remaining row is processed: \<^verbatim>\<open>T.to_dict()\<close> of line 167 is
  keyed by the index label, so when the two rows have the label 0 only the later one is
  turned into a document. The row \<^verbatim>\<open>a1\<close> is never inserted, though its key is not
  stored, and nothing is printed; with the labels 0 and 1 the same two rows are both
  stored.
\<close>

theorem insertar_loses_row_of_repeated_label:
  "fst (insertar_datos_en_colecciones lugares_indice_repetido base_vacia [''cafe'']) = Inr () \<and>
   stored (fst (snd (insertar_datos_en_colecciones lugares_indice_repetido base_vacia [''cafe''])))
     ''cafe'' = [[(''_id'', PStr ''b2''), (''category'', PStr ''cafe'')]] \<and>
   snd (snd (insertar_datos_en_colecciones lugares_indice_repetido base_vacia [''cafe''])) = [] \<and>
   stored (fst (snd (insertar_datos_en_colecciones lugares base_vacia [''cafe''])))
     ''cafe'' = [[(''_id'', PStr ''a1''), (''category'', PStr ''cafe'')],
                 [(''_id'', PStr ''b2''), (''category'', PStr ''cafe'')]] \<and>
   stored (fst (snd (insertar_datos_en_colecciones lugares base_con_a1 [''cafe''])))
     ''cafe'' = [[(''_id'', PStr ''a1''), (''category'', PStr ''cafe'')],
                 [(''_id'', PStr ''b2''), (''category'', PStr ''cafe'')]] \<and>
   snd (snd (insertar_datos_en_colecciones lugares base_con_a1 [''cafe''])) =
     [IdYaExiste (PStr ''a1'')]"
  by (simp add: insertar_datos_en_colecciones_def filter_category_def to_dict_values_def
        row_category_def dict_get_def dict_literal_def renombrar_id_def dict_pop_def
        insert_one_def has_id_def
        lugares_indice_repetido_def lugares_def base_vacia_def base_con_a1_def)

text \<open>
  C10 as stated does not hold for a row that lacks the field in a frame that has the
  column: the cell of such a row is the absent marker, \<^verbatim>\<open>d.pop("fsq_id")\<close> finds the
  key and returns the marker, and the row is inserted with the marker as its
  \<^verbatim>\<open>_id\<close>. Nothing is raised.
\<close>

theorem insertar_absent_cell_counterexample:
  "fst (insertar_datos_en_colecciones lugares_celda_ausente base_vacia [''cafe'']) = Inr () \<and>
   stored (fst (snd (insertar_datos_en_colecciones lugares_celda_ausente base_vacia [''cafe''])))
     ''cafe'' = [[(''_id'', PStr ''a1''), (''category'', PStr ''cafe'')],
                 [(''_id'', PFloat NaN), (''category'', PStr ''cafe'')]] \<and>
   snd (snd (insertar_datos_en_colecciones lugares_celda_ausente base_vacia [''cafe''])) = []"
  by (simp add: insertar_datos_en_colecciones_def filter_category_def to_dict_values_def
        row_category_def dict_get_def dict_literal_def renombrar_id_def dict_pop_def
        insert_one_def has_id_def absent_def
        lugares_celda_ausente_def base_vacia_def)

text \<open>
  C10, amended. The rename of \<^verbatim>\<open>fsq_id\<close> to \<^verbatim>\<open>_id\<close> stands outside the handlers of
  the row loop. For every batch whose frame has no column \<^verbatim>\<open>fsq_id\<close>, so that every
  row lacks the field, and that has a row of a selected category, the operation raises
  \<^verbatim>\<open>KeyError\<close> to the caller; no row has been inserted and nothing has been printed.
\<close>

theorem insertar_missing_fsq_id_raises:
  assumes "wf_frame df" and "''fsq_id'' \<notin> set (df_columns df)"
    and "\<exists>c\<in>set nombre_categorias. filas_categoria df c \<noteq> []"
  shows "insertar_datos_en_colecciones df db nombre_categorias = (Inl (KeyError ''fsq_id''), db, [])"
proof -
  have "length (df_index df) = length (df_rows df)"
    using assms(1) by (simp add: wf_frame_def)
  moreover note assms(2)
  moreover have "list_ex (\<lambda>c. filas_categoria df c \<noteq> []) nombre_categorias"
    using assms(3) by (simp add: list_ex_iff)
  ultimately show ?thesis
    unfolding insertar_datos_en_colecciones_def by (rule insertar_categorias_missing_fsq_id)
qed

theorem insertar_missing_fsq_id_raises_witness:
  "wf_frame lugares_sin_fsq_id \<and>
   ''fsq_id'' \<notin> set (df_columns lugares_sin_fsq_id) \<and>
   filas_categoria lugares_sin_fsq_id ''cafe'' \<noteq> [] \<and>
   fst (insertar_datos_en_colecciones lugares_sin_fsq_id base_vacia [''bar'', ''cafe'']) =
     Inl (KeyError ''fsq_id'') \<and>
   fst (snd (insertar_datos_en_colecciones lugares_sin_fsq_id base_vacia [''bar'', ''cafe''])) =
     base_vacia \<and>
   snd (snd (insertar_datos_en_colecciones lugares_sin_fsq_id base_vacia [''bar'', ''cafe''])) = []"
proof -
  have wf: "wf_frame lugares_sin_fsq_id"
    by (simp add: wf_frame_def lugares_sin_fsq_id_def)
  have key: "''fsq_id'' \<notin> set (df_columns lugares_sin_fsq_id)"
    by (simp add: lugares_sin_fsq_id_def)
  have rows: "filas_categoria lugares_sin_fsq_id ''cafe'' \<noteq> []"
    by (simp add: filas_categoria_def lugares_sin_fsq_id_def row_category_def dict_get_def)
  then have "\<exists>c\<in>set [''bar'', ''cafe'']. filas_categoria lugares_sin_fsq_id c \<noteq> []"
    by simp
  from insertar_missing_fsq_id_raises [OF wf key this, of base_vacia] wf key rows
  show ?thesis by simp
qed

end
